theory Spec2Isabelle
  imports Main "HOL-Library.Word"
begin

unbundle bit_operations_syntax

section \<open>JavaScript strings\<close>

text \<open>
  A JavaScript string is a sequence of UTF-16 code units; \<open>length\<close> counts code units and
  \<open>charCodeAt\<close> reads one of them. A byte of a \<open>Uint8Array\<close> or \<open>Buffer\<close> is an
  8-bit word. \<open>lit\<close> writes an ASCII literal of the source as a JavaScript string.
\<close>

type_synonym jschar = "16 word"
type_synonym jsstring = "jschar list"
type_synonym byte = "8 word"

definition lit :: "string \<Rightarrow> jsstring" where
  "lit s = map (\<lambda>c. of_nat (of_char c)) s"

text \<open>\<open>s.charCodeAt(i)\<close> is \<open>NaN\<close> (here \<open>None\<close>) when \<open>i\<close> is out of range.\<close>

definition charCodeAt :: "jsstring \<Rightarrow> nat \<Rightarrow> jschar option" where
  "charCodeAt s i = (if i < length s then Some (s ! i) else None)"

text \<open>The bitwise operators \<open>^\<close> and \<open>|\<close> work on 32-bit integers; \<open>NaN\<close> converts to 0.\<close>

definition toInt32 :: "jschar option \<Rightarrow> 32 word" where
  "toInt32 c = (case c of None \<Rightarrow> 0 | Some u \<Rightarrow> ucast u)"

section \<open>Webhook signatures: the constant-time comparison\<close>

text \<open>
  \<^verbatim>\<open>
  let result = 0
  for (let i = 0; i < computedSignature.length; i++) {
    result |= computedSignature.charCodeAt(i) ^ signature.charCodeAt(i)
  }
  \<close>
  The same loop stands in \<open>validateSlackSignature\<close> and in
  \<open>validateMicrosoftTeamsSignature\<close>, after the check of the two lengths.
\<close>

function compareLoop :: "jsstring \<Rightarrow> jsstring \<Rightarrow> nat \<Rightarrow> 32 word \<Rightarrow> 32 word" where
  "compareLoop computed provided i result =
     (if i < length computed
      then compareLoop computed provided (i + 1)
             (result OR (toInt32 (charCodeAt computed i) XOR toInt32 (charCodeAt provided i)))
      else result)"
  by pat_completeness auto
termination
  by (relation "measure (\<lambda>(computed, provided, i, result). length computed - i)") auto

declare compareLoop.simps [simp del]

definition constantTimeEqual :: "jsstring \<Rightarrow> jsstring \<Rightarrow> bool" where
  "constantTimeEqual computed provided =
     (if length computed \<noteq> length provided then False
      else compareLoop computed provided 0 0 = 0)"

section \<open>Webhook signatures: Slack and Microsoft Teams\<close>

text \<open>
  The digest and encoding functions are the platform's (\<open>TextEncoder\<close>,
  \<open>crypto.subtle\<close>, Node's \<open>crypto\<close> and \<open>Buffer\<close>), not this repository's:
  they are fields of a record the validators take. Creating the key or signing may throw,
  so \<open>hmacSha256\<close> returns an option, \<open>None\<close> for a thrown error.
\<close>

record platform =
  utf8Encode :: "jsstring \<Rightarrow> byte list"
  hmacSha256 :: "byte list \<Rightarrow> byte list \<Rightarrow> byte list option"
  base64Decode :: "jsstring \<Rightarrow> byte list"
  base64Encode :: "byte list \<Rightarrow> jsstring"

subsection \<open>\<open>Number.parseInt\<close> with no radix\<close>

text \<open>
  ECMAScript's \<open>parseInt\<close>: leading white space is skipped, then an optional sign, then
  an optional \<open>0x\<close> or \<open>0X\<close> (which selects radix 16), then the longest run of digits of
  the radix; what follows is ignored. With no digit the result is \<open>NaN\<close>, here \<open>None\<close>.
  The value is kept as an exact integer: a double represents every integer below
  \<open>2^53\<close>, and beyond it the rounding does not change a comparison with a clock in
  seconds.
\<close>

definition isStrWhiteSpaceChar :: "jschar \<Rightarrow> bool" where
  "isStrWhiteSpaceChar c =
     (c = 0x9 \<or> c = 0xA \<or> c = 0xB \<or> c = 0xC \<or> c = 0xD \<or> c = 0x20 \<or> c = 0xA0 \<or>
      c = 0x1680 \<or> (0x2000 \<le> c \<and> c \<le> 0x200A) \<or> c = 0x2028 \<or> c = 0x2029 \<or>
      c = 0x202F \<or> c = 0x205F \<or> c = 0x3000 \<or> c = 0xFEFF)"

definition digitValue :: "jschar \<Rightarrow> nat option" where
  "digitValue c =
     (if 0x30 \<le> c \<and> c \<le> 0x39 then Some (unat c - 0x30)
      else if 0x61 \<le> c \<and> c \<le> 0x7A then Some (unat c - 0x61 + 10)
      else if 0x41 \<le> c \<and> c \<le> 0x5A then Some (unat c - 0x41 + 10)
      else None)"

definition isRadixDigit :: "nat \<Rightarrow> jschar \<Rightarrow> bool" where
  "isRadixDigit R c = (case digitValue c of None \<Rightarrow> False | Some d \<Rightarrow> d < R)"

definition digitsValue :: "nat \<Rightarrow> jsstring \<Rightarrow> nat" where
  "digitsValue R Z =
     foldl (\<lambda>acc c. case digitValue c of None \<Rightarrow> acc | Some d \<Rightarrow> acc * R + d) 0 Z"

definition parseInt :: "jsstring \<Rightarrow> int option" where
  "parseInt inputString =
     (let S = dropWhile isStrWhiteSpaceChar inputString;
          sign = (if S \<noteq> [] \<and> hd S = 0x2D then - 1 else 1 :: int);
          S = (if S \<noteq> [] \<and> (hd S = 0x2B \<or> hd S = 0x2D) then tl S else S);
          hex = (take 2 S = lit ''0x'' \<or> take 2 S = lit ''0X'');
          R = (if hex then 16 else 10);
          S = (if hex then drop 2 S else S);
          Z = takeWhile (isRadixDigit R) S
      in if Z = [] then None else Some (sign * int (digitsValue R Z)))"

subsection \<open>\<open>validateSlackSignature\<close>\<close>

text \<open>\<open>b.toString(16).padStart(2, '0')\<close> for a byte \<open>b\<close>, and the bytes joined.\<close>

definition hexDigit :: "nat \<Rightarrow> jschar" where
  "hexDigit n = (if n < 10 then of_nat (0x30 + n) else of_nat (0x61 + (n - 10)))"

definition toString16 :: "byte \<Rightarrow> jsstring" where
  "toString16 b =
     (if unat b < 16 then [hexDigit (unat b)]
      else [hexDigit (unat b div 16), hexDigit (unat b mod 16)])"

definition padStart :: "nat \<Rightarrow> jschar \<Rightarrow> jsstring \<Rightarrow> jsstring" where
  "padStart n fill s = replicate (n - length s) fill @ s"

definition signatureHex :: "byte list \<Rightarrow> jsstring" where
  "signatureHex signatureBytes = concat (map (\<lambda>b. padStart 2 0x30 (toString16 b)) signatureBytes)"

text \<open>
  \<open>Math.abs(currentTime - Number.parseInt(timestamp)) > 300\<close>: with \<open>NaN\<close> the
  difference is \<open>NaN\<close> and every comparison with it is false.
\<close>

definition timestampTooOld :: "int \<Rightarrow> int option \<Rightarrow> bool" where
  "timestampTooOld currentTime parsed =
     (case parsed of None \<Rightarrow> False | Some t \<Rightarrow> \<bar>currentTime - t\<bar> > 300)"

text \<open>
  \<open>currentTime\<close> is \<open>Math.floor(Date.now() / 1000)\<close>. An empty string is the only falsy
  string. Every exit of the \<open>try\<close> block is a branch; the \<open>catch\<close> returns false.
\<close>

definition validateSlackSignature ::
  "platform \<Rightarrow> int \<Rightarrow> jsstring \<Rightarrow> jsstring \<Rightarrow> jsstring \<Rightarrow> jsstring \<Rightarrow> bool" where
  "validateSlackSignature P currentTime signingSecret signature timestamp body =
     (if signingSecret = [] \<or> signature = [] \<or> timestamp = [] \<or> body = [] then False
      else if timestampTooOld currentTime (parseInt timestamp) then False
      else
        let baseString = lit ''v0:'' @ timestamp @ lit '':'' @ body
        in case hmacSha256 P (utf8Encode P signingSecret) (utf8Encode P baseString) of
             None \<Rightarrow> False
           | Some signatureBytes \<Rightarrow>
               constantTimeEqual (lit ''v0='' @ signatureHex signatureBytes) signature)"

text \<open>
  The contract as the specification words it: all four arguments non-empty, the timestamp
  within the window (\<open>|currentTime - parseInt(timestamp)| <= 300\<close>, which is false for
  \<open>NaN\<close>), and the signature equal to \<open>v0=\<close> followed by the hex digest.
\<close>

definition withinReplayWindow :: "int \<Rightarrow> int option \<Rightarrow> bool" where
  "withinReplayWindow currentTime parsed =
     (case parsed of None \<Rightarrow> False | Some t \<Rightarrow> \<bar>currentTime - t\<bar> \<le> 300)"

definition validateSlackSignature_spec ::
  "platform \<Rightarrow> int \<Rightarrow> jsstring \<Rightarrow> jsstring \<Rightarrow> jsstring \<Rightarrow> jsstring \<Rightarrow> bool" where
  "validateSlackSignature_spec P currentTime signingSecret signature timestamp body =
     (signingSecret \<noteq> [] \<and> signature \<noteq> [] \<and> timestamp \<noteq> [] \<and> body \<noteq> [] \<and>
      withinReplayWindow currentTime (parseInt timestamp) \<and>
      (case hmacSha256 P (utf8Encode P signingSecret)
              (utf8Encode P (lit ''v0:'' @ timestamp @ lit '':'' @ body)) of
         None \<Rightarrow> False
       | Some signatureBytes \<Rightarrow> signature = lit ''v0='' @ signatureHex signatureBytes))"

subsection \<open>\<open>validateMicrosoftTeamsSignature\<close>\<close>

definition startsWith :: "jsstring \<Rightarrow> jsstring \<Rightarrow> bool" where
  "startsWith s searchString = (take (length searchString) s = searchString)"

definition substring :: "jsstring \<Rightarrow> nat \<Rightarrow> jsstring" where
  "substring s start = drop start s"

definition validateMicrosoftTeamsSignature ::
  "platform \<Rightarrow> jsstring \<Rightarrow> jsstring \<Rightarrow> jsstring \<Rightarrow> bool" where
  "validateMicrosoftTeamsSignature P hmacSecret signature body =
     (if hmacSecret = [] \<or> signature = [] \<or> body = [] then False
      else if \<not> startsWith signature (lit ''HMAC '') then False
      else
        let providedSignature = substring signature 5;
            secretBytes = base64Decode P hmacSecret;
            bodyBytes = utf8Encode P body
        in case hmacSha256 P secretBytes bodyBytes of
             None \<Rightarrow> False
           | Some digest \<Rightarrow> constantTimeEqual (base64Encode P digest) providedSignature)"

section \<open>Airtable: consolidating the changes of the fetched payloads\<close>

text \<open>
  A JavaScript object used as a dictionary of field values is a map; the spread
  \<open>{ ...a, ...b }\<close> is \<open>a ++ b\<close>, where \<open>b\<close> wins. Field values are arbitrary JSON, a
  type parameter here. An optional property is an option, \<open>None\<close> when it is missing
  (or falsy).
\<close>

type_synonym 'v fields = "jsstring \<Rightarrow> 'v option"

datatype changeKind = Created | Updated

record 'v AirtableChange =
  tableId :: jsstring
  recordId :: jsstring
  changeType :: changeKind
  changedFields :: "'v fields"
  previousFields :: "'v fields option"

text \<open>
  The part of an Airtable payload the code reads. Objects iterated with
  \<open>Object.entries\<close> are lists of key and value, in iteration order.
  \<open>currentCellValues\<close> is \<open>recordData.current?.cellValuesByFieldId\<close> and
  \<open>previousCellValues\<close> is \<open>recordData.previous?.cellValuesByFieldId\<close>.
\<close>

record 'v createdRecord =
  cellValuesByFieldId :: "'v fields option"

record 'v changedRecord =
  currentCellValues :: "'v fields option"
  previousCellValues :: "'v fields option"

record 'v tableChanges =
  createdRecordsById :: "(jsstring \<times> 'v createdRecord) list option"
  changedRecordsById :: "(jsstring \<times> 'v changedRecord) list option"

record 'v payload =
  changedTablesById :: "(jsstring \<times> 'v tableChanges) list option"

text \<open>
  \<open>consolidatedChangesMap\<close> is a JavaScript \<open>Map\<close>: it keeps its keys in insertion
  order, and \<open>set\<close> on a key that is present replaces the value in place.
\<close>

type_synonym 'v changesMap = "(jsstring \<times> 'v AirtableChange) list"

fun mapGet :: "('k \<times> 'a) list \<Rightarrow> 'k \<Rightarrow> 'a option" where
  "mapGet [] k = None"
| "mapGet ((k', v') # m) k = (if k' = k then Some v' else mapGet m k)"

fun mapSet :: "('k \<times> 'a) list \<Rightarrow> 'k \<Rightarrow> 'a \<Rightarrow> ('k \<times> 'a) list" where
  "mapSet [] k v = [(k, v)]"
| "mapSet ((k', v') # m) k v = (if k' = k then (k, v) # m else (k', v') # mapSet m k v)"

definition mapValues :: "('k \<times> 'a) list \<Rightarrow> 'a list" where
  "mapValues m = map snd m"

text \<open>\<open>x || {}\<close> for an optional object \<open>x\<close>.\<close>

definition orEmpty :: "'v fields option \<Rightarrow> 'v fields" where
  "orEmpty x = (case x of None \<Rightarrow> Map.empty | Some f \<Rightarrow> f)"

text \<open>The body of the loop over \<open>createdRecordsById\<close>.\<close>

definition handleCreatedRecord ::
  "jsstring \<Rightarrow> 'v changesMap \<Rightarrow> jsstring \<times> 'v createdRecord \<Rightarrow> 'v changesMap" where
  "handleCreatedRecord tid m entry =
     (let rid = fst entry; recordData = snd entry
      in case mapGet m rid of
           Some existingChange \<Rightarrow>
             mapSet m rid
               (existingChange\<lparr>changedFields :=
                  changedFields existingChange ++ orEmpty (cellValuesByFieldId recordData)\<rparr>)
         | None \<Rightarrow>
             mapSet m rid
               \<lparr>tableId = tid, recordId = rid, changeType = Created,
                changedFields = orEmpty (cellValuesByFieldId recordData),
                previousFields = None\<rparr>)"

text \<open>The body of the loop over \<open>changedRecordsById\<close>.\<close>

definition handleChangedRecord ::
  "jsstring \<Rightarrow> 'v changesMap \<Rightarrow> jsstring \<times> 'v changedRecord \<Rightarrow> 'v changesMap" where
  "handleChangedRecord tid m entry =
     (let rid = fst entry; recordData = snd entry;
          currentFields = orEmpty (currentCellValues recordData)
      in case mapGet m rid of
           Some existingChange \<Rightarrow>
             mapSet m rid
               (existingChange\<lparr>changedFields := changedFields existingChange ++ currentFields,
                               changeType := Updated\<rparr>)
         | None \<Rightarrow>
             mapSet m rid
               \<lparr>tableId = tid, recordId = rid, changeType = Updated,
                changedFields = currentFields,
                previousFields = previousCellValues recordData\<rparr>)"

definition handleTableChanges ::
  "'v changesMap \<Rightarrow> jsstring \<times> 'v tableChanges \<Rightarrow> 'v changesMap" where
  "handleTableChanges m entry =
     (let tid = fst entry; tableChanges = snd entry;
          m = (case createdRecordsById tableChanges of
                 None \<Rightarrow> m
               | Some created \<Rightarrow> foldl (handleCreatedRecord tid) m created)
      in case changedRecordsById tableChanges of
           None \<Rightarrow> m
         | Some changed \<Rightarrow> foldl (handleChangedRecord tid) m changed)"

definition handlePayload :: "'v changesMap \<Rightarrow> 'v payload \<Rightarrow> 'v changesMap" where
  "handlePayload m p =
     (case changedTablesById p of
        None \<Rightarrow> m
      | Some tables \<Rightarrow> foldl handleTableChanges m tables)"

definition consolidatePayloads :: "'v changesMap \<Rightarrow> 'v payload list \<Rightarrow> 'v changesMap" where
  "consolidatePayloads m receivedPayloads = foldl handlePayload m receivedPayloads"

subsection \<open>The record entries of the payloads, in the order the loops visit them\<close>











subsection \<open>One entry at a time\<close>



section \<open>Airtable: the polling loop\<close>

text \<open>
  The \<open>cursor\<close> of a response, and the stored \<open>externalWebhookCursor\<close>, are JSON
  values: a number, something that is not a number, or nothing. Zero is the one falsy
  number JSON can carry.
\<close>

datatype cursorValue = CursorMissing | CursorNonNumeric | CursorNumber int

record 'v payloadsResponse =
  payloads :: "'v payload list"
  cursor :: cursorValue
  responseMightHaveMore :: bool

text \<open>
  One call of the API: \<open>fetch\<close> or \<open>response.json()\<close> throws, or the response is not
  \<open>ok\<close> or carries \<open>error\<close>, or it is a body with \<open>payloads || []\<close>, \<open>cursor\<close> and
  \<open>mightHaveMore || false\<close>. The API answers as it likes, given the number of the call
  and the cursor sent; the database update succeeds or throws.
\<close>

datatype 'v fetchResult = FetchThrows | ApiError | ApiOk "'v payloadsResponse"

record 'v airtableEnv =
  fetchPayloads :: "nat \<Rightarrow> int option \<Rightarrow> 'v fetchResult"
  dbUpdateSucceeds :: "nat \<Rightarrow> int \<Rightarrow> bool"

text \<open>The calls the loop makes to the outside, in order.\<close>

datatype ioEvent = FetchCall nat "int option" | CursorSaved int | CursorSaveFailed int

fun isFetchCall :: "ioEvent \<Rightarrow> bool" where
  "isFetchCall (FetchCall n c) = True"
| "isFetchCall (CursorSaved c) = False"
| "isFetchCall (CursorSaveFailed c) = False"

text \<open>
  The variables of the loop. \<open>localCursor\<close> is
  \<open>localProviderConfig.externalWebhookCursor\<close>, \<open>dbCursor\<close> the same field of the
  webhook row in the database.
\<close>

record 'v pollState =
  currentCursor :: "int option"
  mightHaveMore :: bool
  apiCallCount :: nat
  consolidatedChangesMap :: "'v changesMap"
  allPayloads :: "'v payload list"
  localCursor :: cursorValue
  dbCursor :: cursorValue
  ioLog :: "ioEvent list"

datatype loopControl = Continue | Break

text \<open>
  The three branches on \<open>nextCursor\<close>. A failed update throws inside the \<open>try\<close> of the
  loop body, whose \<open>catch\<close> breaks.
\<close>

definition updateCursor ::
  "'v airtableEnv \<Rightarrow> 'v pollState \<Rightarrow> cursorValue \<Rightarrow> 'v pollState \<times> loopControl" where
  "updateCursor env st nextCursor =
     (case nextCursor of
        CursorNumber c \<Rightarrow>
          if c \<noteq> 0 \<and> Some c \<noteq> currentCursor st then
            let st = st\<lparr>currentCursor := Some c\<rparr>
            in if dbUpdateSucceeds env (apiCallCount st) c
               then (st\<lparr>dbCursor := CursorNumber c, localCursor := CursorNumber c,
                        ioLog := ioLog st @ [CursorSaved c]\<rparr>, Continue)
               else (st\<lparr>mightHaveMore := False,
                        ioLog := ioLog st @ [CursorSaveFailed c]\<rparr>, Break)
          else (st\<lparr>mightHaveMore := False\<rparr>, Continue)
      | CursorMissing \<Rightarrow> (st\<lparr>mightHaveMore := False\<rparr>, Continue)
      | CursorNonNumeric \<Rightarrow> (st\<lparr>mightHaveMore := False\<rparr>, Continue))"

definition receivePayloads :: "'v pollState \<Rightarrow> 'v payloadsResponse \<Rightarrow> 'v pollState" where
  "receivePayloads st responseBody =
     (let st = st\<lparr>allPayloads := allPayloads st @ payloads responseBody,
                 consolidatedChangesMap :=
                   consolidatePayloads (consolidatedChangesMap st) (payloads responseBody)\<rparr>
      in st\<lparr>mightHaveMore := responseMightHaveMore responseBody\<rparr>)"

definition issueFetch :: "'v pollState \<Rightarrow> 'v pollState" where
  "issueFetch st =
     (let st = st\<lparr>apiCallCount := apiCallCount st + 1\<rparr>
      in st\<lparr>ioLog := ioLog st @ [FetchCall (apiCallCount st) (currentCursor st)]\<rparr>)"

text \<open>One turn of \<open>while (mightHaveMore)\<close>, and how it leaves the loop body.\<close>

definition pollIteration ::
  "'v airtableEnv \<Rightarrow> 'v pollState \<Rightarrow> 'v pollState \<times> loopControl" where
  "pollIteration env st0 =
     (let st = st0\<lparr>apiCallCount := apiCallCount st0 + 1\<rparr>
      in if apiCallCount st > 10 then (st\<lparr>mightHaveMore := False\<rparr>, Break)
         else
           let st = st\<lparr>ioLog := ioLog st @ [FetchCall (apiCallCount st) (currentCursor st)]\<rparr>
           in case fetchPayloads env (apiCallCount st) (currentCursor st) of
                FetchThrows \<Rightarrow> (st\<lparr>mightHaveMore := False\<rparr>, Break)
              | ApiError \<Rightarrow> (st\<lparr>mightHaveMore := False\<rparr>, Break)
              | ApiOk responseBody \<Rightarrow>
                  updateCursor env (receivePayloads st responseBody) (cursor responseBody))"

function pollLoop :: "'v airtableEnv \<Rightarrow> 'v pollState \<Rightarrow> 'v pollState" where
  "pollLoop env st =
     (if mightHaveMore st
      then (if snd (pollIteration env st) = Break then fst (pollIteration env st)
            else pollLoop env (fst (pollIteration env st)))
      else st)"
  by pat_completeness auto
termination
proof (relation "measure (\<lambda>(env, st). 11 - apiCallCount st)")
  show "wf (measure (\<lambda>(env, st). 11 - apiCallCount st))"
    by simp
next
  fix env :: "'v airtableEnv" and st :: "'v pollState"
  assume "mightHaveMore st" and "snd (pollIteration env st) \<noteq> Break"
  then have "snd (pollIteration env st) = Continue"
    by (cases "snd (pollIteration env st)") simp_all
  then have "apiCallCount st < 10 \<and> apiCallCount (fst (pollIteration env st)) = apiCallCount st + 1"
    by (auto simp: pollIteration_def updateCursor_def Let_def receivePayloads_def
             split: if_splits fetchResult.splits cursorValue.splits)
  then show "((env, fst (pollIteration env st)), (env, st)) \<in> measure (\<lambda>(env, st). 11 - apiCallCount st)"
    by auto
qed

declare pollLoop.simps [simp del]

text \<open>
  The state at the loop's entry: the stored cursor is used when it is a truthy number.
\<close>

definition initialPollState :: "cursorValue \<Rightarrow> 'v pollState" where
  "initialPollState storedCursor =
     \<lparr>currentCursor =
        (case storedCursor of
           CursorNumber c \<Rightarrow> if c \<noteq> 0 then Some c else None
         | CursorMissing \<Rightarrow> None
         | CursorNonNumeric \<Rightarrow> None),
      mightHaveMore = True, apiCallCount = 0, consolidatedChangesMap = [], allPayloads = [],
      localCursor = storedCursor, dbCursor = storedCursor, ioLog = []\<rparr>"

definition fetchCount :: "'v pollState \<Rightarrow> nat" where
  "fetchCount st = length (filter isFetchCall (ioLog st))"


text \<open>Two environments for the examples.\<close>

definition zeroCursorResponse :: "unit payloadsResponse" where
  "zeroCursorResponse = \<lparr>payloads = [], cursor = CursorNumber 0, responseMightHaveMore = True\<rparr>"

definition zeroCursorEnv :: "unit airtableEnv" where
  "zeroCursorEnv =
     \<lparr>fetchPayloads = (\<lambda>n c. ApiOk zeroCursorResponse), dbUpdateSucceeds = (\<lambda>n c. True)\<rparr>"

definition newCursorResponse :: "unit payloadsResponse" where
  "newCursorResponse = \<lparr>payloads = [], cursor = CursorNumber 7, responseMightHaveMore = False\<rparr>"

definition newCursorEnv :: "unit airtableEnv" where
  "newCursorEnv =
     \<lparr>fetchPayloads = (\<lambda>n c. ApiOk newCursorResponse), dbUpdateSucceeds = (\<lambda>n c. True)\<rparr>"

subsection \<open>Examples\<close>

text \<open>
  Two payloads about one record: created with a field, then changed with a new value of
  that field and a previous value.
\<close>

definition createdPayload :: "nat payload" where
  "createdPayload =
     \<lparr>changedTablesById = Some [(lit ''tbl1'',
        \<lparr>createdRecordsById =
           Some [(lit ''rec1'', \<lparr>cellValuesByFieldId = Some [lit ''fld1'' \<mapsto> 1]\<rparr>)],
         changedRecordsById = None\<rparr>)]\<rparr>"

definition changedPayload :: "nat payload" where
  "changedPayload =
     \<lparr>changedTablesById = Some [(lit ''tbl1'',
        \<lparr>createdRecordsById = None,
         changedRecordsById =
           Some [(lit ''rec1'', \<lparr>currentCellValues = Some [lit ''fld1'' \<mapsto> 2],
                                 previousCellValues = Some [lit ''fld1'' \<mapsto> 1]\<rparr>)]\<rparr>)]\<rparr>"

text \<open>An API that always has more, with a new cursor on every call.\<close>

definition endlessEnv :: "unit airtableEnv" where
  "endlessEnv =
     \<lparr>fetchPayloads =
        (\<lambda>n c. ApiOk \<lparr>payloads = [], cursor = CursorNumber (int n + 100),
                        responseMightHaveMore = True\<rparr>),
      dbUpdateSucceeds = (\<lambda>n c. True)\<rparr>"

section \<open>Collaboration: the operation queue and the remote handlers\<close>

text \<open>
  The state \<open>useCollaborativeWorkflow\<close> works on. The stores, the socket and the
  operation queue live outside this hook: what the hook does to them is the sequence of
  its calls, kept here in order. JSON data (payloads, positions, sub-block values) is a
  string, an object or something opaque; a \<open>localAction\<close> closure is opaque.
\<close>

datatype 'p json = JString jsstring | JObject "(jsstring \<times> 'p json) list" | JOther 'p

text \<open>
  Calls into the local stores: a \<open>localAction()\<close>, \<open>subBlockStore.setValue\<close>,
  \<open>workflowStore.updateBlockPosition\<close>, \<open>addBlock\<close>, \<open>addEdge\<close>, \<open>removeBlock\<close> and
  \<open>variablesStore.updateVariable\<close>.
\<close>

datatype ('a, 'p) storeCall =
    LocalAction 'a
  | SetValue jsstring jsstring "'p json"
  | UpdateBlockPosition jsstring "'p json"
  | AddBlock "'p json"
  | AddEdge "'p json"
  | RemoveBlock jsstring
  | UpdateVariable jsstring jsstring "'p json"

text \<open>An entry handed to \<open>addToQueue\<close>; \<open>crypto.randomUUID()\<close> draws its id from a supply.\<close>

record 'p queuedOperation =
  qId :: nat
  qOperation :: jsstring
  qTarget :: jsstring
  qPayload :: "'p json"
  qWorkflowId :: jsstring
  qUserId :: jsstring
  qImmediate :: bool

record ('a, 'p) collabState =
  isApplyingRemoteChange :: bool
  isShowingDiff :: bool
  currentWorkflowId :: "jsstring option"
  activeWorkflowId :: "jsstring option"
  sessionUserId :: "jsstring option"
  queue :: "'p queuedOperation list"
  emitted :: "(jsstring \<times> jsstring \<times> 'p json) list"
  localCalls :: "('a, 'p) storeCall list"
  lastPositionTimestamps :: "jsstring \<Rightarrow> int option"
  uuidSupply :: nat

text \<open>\<open>!!s\<close> and \<open>s || d\<close> for a string that may be null.\<close>

definition truthyString :: "jsstring option \<Rightarrow> bool" where
  "truthyString s = (case s of None \<Rightarrow> False | Some x \<Rightarrow> x \<noteq> [])"

definition stringOr :: "jsstring option \<Rightarrow> jsstring \<Rightarrow> jsstring" where
  "stringOr s d = (if truthyString s then (case s of None \<Rightarrow> d | Some x \<Rightarrow> x) else d)"

definition isInActiveRoom :: "('a, 'p) collabState \<Rightarrow> bool" where
  "isInActiveRoom st = (truthyString (currentWorkflowId st) \<and> activeWorkflowId st = currentWorkflowId st)"

text \<open>
  Modelled from the spec: the operation queue store (\<open>stores/operation-queue/store\<close>) is
  not among the sources. The specification describes it as the structure that tracks
  pending collaborative edits until the server confirms them, so \<open>addToQueue\<close> appends
  the entry to the pending operations.
\<close>

definition addToQueue :: "'p queuedOperation \<Rightarrow> ('a, 'p) collabState \<Rightarrow> ('a, 'p) collabState" where
  "addToQueue entry st = st\<lparr>queue := queue st @ [entry]\<rparr>"

text \<open>A call into a local store, and an emit on the socket.\<close>

definition applyLocally :: "('a, 'p) storeCall \<Rightarrow> ('a, 'p) collabState \<Rightarrow> ('a, 'p) collabState" where
  "applyLocally c st = st\<lparr>localCalls := localCalls st @ [c]\<rparr>"

definition emitWorkflowOperation ::
  "jsstring \<Rightarrow> jsstring \<Rightarrow> 'p json \<Rightarrow> ('a, 'p) collabState \<Rightarrow> ('a, 'p) collabState" where
  "emitWorkflowOperation operation target payload st =
     st\<lparr>emitted := emitted st @ [(operation, target, payload)]\<rparr>"

text \<open>
  \<open>const operationId = crypto.randomUUID(); addToQueue({ id: operationId, operation: {
  operation, target, payload }, workflowId: activeWorkflowId || '', userId:
  session?.user?.id || 'unknown' })\<close>, with \<open>immediate: true\<close> for a tag selection.
\<close>

definition enqueue ::
  "jsstring \<Rightarrow> jsstring \<Rightarrow> 'p json \<Rightarrow> bool \<Rightarrow> ('a, 'p) collabState \<Rightarrow> ('a, 'p) collabState" where
  "enqueue operation target payload immediate st =
     (let operationId = uuidSupply st;
          st = st\<lparr>uuidSupply := uuidSupply st + 1\<rparr>
      in addToQueue
           \<lparr>qId = operationId, qOperation = operation, qTarget = target, qPayload = payload,
            qWorkflowId = stringOr (activeWorkflowId st) [],
            qUserId = stringOr (sessionUserId st) (lit ''unknown''),
            qImmediate = immediate\<rparr> st)"

definition executeQueuedOperation ::
  "jsstring \<Rightarrow> jsstring \<Rightarrow> 'p json \<Rightarrow> 'a \<Rightarrow> ('a, 'p) collabState \<Rightarrow> ('a, 'p) collabState" where
  "executeQueuedOperation operation target payload localAction st =
     (if isApplyingRemoteChange st then st
      else if isShowingDiff st then st
      else if \<not> isInActiveRoom st then st
      else applyLocally (LocalAction localAction) (enqueue operation target payload False st))"

definition executeQueuedDebouncedOperation ::
  "jsstring \<Rightarrow> jsstring \<Rightarrow> 'p json \<Rightarrow> 'a \<Rightarrow> ('a, 'p) collabState \<Rightarrow> ('a, 'p) collabState" where
  "executeQueuedDebouncedOperation operation target payload localAction st =
     (if isApplyingRemoteChange st then st
      else if isShowingDiff st then st
      else if \<not> isInActiveRoom st then st
      else emitWorkflowOperation operation target payload (applyLocally (LocalAction localAction) st))"

text \<open>The payload \<open>{ blockId, subblockId, value }\<close>.\<close>

definition subblockPayload :: "jsstring \<Rightarrow> jsstring \<Rightarrow> 'p json \<Rightarrow> 'p json" where
  "subblockPayload blockId subblockId v =
     JObject [(lit ''blockId'', JString blockId), (lit ''subblockId'', JString subblockId),
              (lit ''value'', v)]"

text \<open>
  The sub-blocks of the block's configuration, each with its id and its \<open>dependsOn\<close>
  list (empty when the block or its configuration is not found). The dependents of a
  sub-block are those whose \<open>dependsOn\<close> includes it, without the ones with no id and
  without the sub-block itself.
\<close>

type_synonym subBlockConfig = "jsstring \<times> jsstring list"

definition dependents :: "subBlockConfig list \<Rightarrow> jsstring \<Rightarrow> jsstring list" where
  "dependents subBlocks subblockId =
     filter (\<lambda>d. d \<noteq> [] \<and> d \<noteq> subblockId)
       (map fst (filter (\<lambda>sb. subblockId \<in> set (snd sb)) subBlocks))"

text \<open>
  \<open>collaborativeSetSubblockValue\<close> queues and applies the value, then calls itself with
  \<open>''\<close> on every dependent, sharing one \<open>visited\<close> set; the recursive calls are the
  last thing each call does, so the calls still to be made form a stack. Every call first
  makes the three checks, then queues and applies, and only then looks at \<open>visited\<close>.
  The sub-block ids not yet visited shrink with every call that goes on: the measure of
  the termination proof.
\<close>

definition pendingIds :: "subBlockConfig list \<Rightarrow> (jsstring \<times> 'p json) list \<Rightarrow> jsstring list \<Rightarrow> jsstring set" where
  "pendingIds subBlocks calls visited = (set (map fst subBlocks) \<union> set (map fst calls)) - set visited"

function setSubblockValues ::
  "subBlockConfig list \<Rightarrow> jsstring \<Rightarrow> (jsstring \<times> 'p json) list \<Rightarrow> jsstring list \<Rightarrow>
   ('a, 'p) collabState \<Rightarrow> ('a, 'p) collabState" where
  "setSubblockValues subBlocks blockId [] visited st = st"
| "setSubblockValues subBlocks blockId ((subblockId, v) # rest) visited st =
     (if isApplyingRemoteChange st \<or> isShowingDiff st \<or> \<not> isInActiveRoom st
      then setSubblockValues subBlocks blockId rest visited st
      else
        let st = applyLocally (SetValue blockId subblockId v)
                   (enqueue (lit ''subblock-update'') (lit ''subblock'')
                      (subblockPayload blockId subblockId v) False st)
        in if subblockId \<in> set visited
           then setSubblockValues subBlocks blockId rest visited st
           else setSubblockValues subBlocks blockId
                  (map (\<lambda>d. (d, JString [])) (dependents subBlocks subblockId) @ rest)
                  (subblockId # visited) st)"
  by pat_completeness auto
termination
proof -
  have skip: "card (pendingIds subBlocks rest visited) \<le> card (pendingIds subBlocks (c # rest) visited)"
    for subBlocks :: "subBlockConfig list" and rest :: "(jsstring \<times> 'p json) list" and visited c
    by (rule card_mono) (auto simp: pendingIds_def)
  have visit: "card (pendingIds subBlocks (map (\<lambda>d. (d, v)) (dependents subBlocks s) @ rest) (s # visited))
       < card (pendingIds subBlocks ((s, w) # rest) visited)"
    if "s \<notin> set visited"
    for subBlocks :: "subBlockConfig list" and rest :: "(jsstring \<times> 'p json) list"
      and visited s v w
  proof (rule psubset_card_mono)
    show "finite (pendingIds subBlocks ((s, w) # rest) visited)"
      by (simp add: pendingIds_def)
    have "s \<in> pendingIds subBlocks ((s, w) # rest) visited"
      using that by (simp add: pendingIds_def)
    moreover have "s \<notin> pendingIds subBlocks (map (\<lambda>d. (d, v)) (dependents subBlocks s) @ rest) (s # visited)"
      by (simp add: pendingIds_def)
    moreover have "pendingIds subBlocks (map (\<lambda>d. (d, v)) (dependents subBlocks s) @ rest) (s # visited)
        \<subseteq> pendingIds subBlocks ((s, w) # rest) visited"
      by (auto simp: pendingIds_def dependents_def)
    ultimately show "pendingIds subBlocks (map (\<lambda>d. (d, v)) (dependents subBlocks s) @ rest) (s # visited)
        \<subset> pendingIds subBlocks ((s, w) # rest) visited"
      by blast
  qed
  show ?thesis
    apply (relation "measures [\<lambda>(subBlocks, blockId, calls, visited, st). card (pendingIds subBlocks calls visited),
                           \<lambda>(subBlocks, blockId, calls, visited, st). length calls]")
       apply simp
      apply (simp add: order.order_iff_strict [symmetric] skip)
     apply (simp add: order.order_iff_strict [symmetric] skip)
    apply (simp add: visit)
    done
qed


declare setSubblockValues.simps [simp del]

definition collaborativeSetSubblockValue ::
  "subBlockConfig list \<Rightarrow> jsstring \<Rightarrow> jsstring \<Rightarrow> 'p json \<Rightarrow>
   ('a, 'p) collabState \<Rightarrow> ('a, 'p) collabState" where
  "collaborativeSetSubblockValue subBlocks blockId subblockId v st =
     setSubblockValues subBlocks blockId [(subblockId, v)] [] st"

definition collaborativeSetTagSelection ::
  "jsstring \<Rightarrow> jsstring \<Rightarrow> 'p json \<Rightarrow> ('a, 'p) collabState \<Rightarrow> ('a, 'p) collabState" where
  "collaborativeSetTagSelection blockId subblockId v st =
     (if isApplyingRemoteChange st then st
      else if \<not> isInActiveRoom st then st
      else enqueue (lit ''subblock-update'') (lit ''subblock'')
             (subblockPayload blockId subblockId v) True
             (applyLocally (SetValue blockId subblockId v) st))"

definition addBlockLocally ::
  "'p json \<Rightarrow> 'p json option \<Rightarrow> ('a, 'p) collabState \<Rightarrow> ('a, 'p) collabState" where
  "addBlockLocally block autoConnectEdge st =
     (let st = applyLocally (AddBlock block) st
      in case autoConnectEdge of None \<Rightarrow> st | Some edge \<Rightarrow> applyLocally (AddEdge edge) st)"

definition collaborativeAddBlock ::
  "bool \<Rightarrow> bool \<Rightarrow> 'p json \<Rightarrow> 'p json \<Rightarrow> 'p json option \<Rightarrow>
   ('a, 'p) collabState \<Rightarrow> ('a, 'p) collabState" where
  "collaborativeAddBlock hasBlockConfig isLoopOrParallel completeBlockData block autoConnectEdge st =
     (if isShowingDiff st then st
      else if \<not> isInActiveRoom st then st
      else if \<not> hasBlockConfig \<and> isLoopOrParallel then
        (if isApplyingRemoteChange st then addBlockLocally block autoConnectEdge st
         else addBlockLocally block autoConnectEdge
                (enqueue (lit ''add'') (lit ''block'') completeBlockData False st))
      else if \<not> hasBlockConfig then st
      else if isApplyingRemoteChange st then st
      else addBlockLocally block autoConnectEdge
             (enqueue (lit ''add'') (lit ''block'') completeBlockData False st))"

text \<open>The collaborative functions, as calls that store subscribers may make.\<close>

datatype ('a, 'p) collabCall =
    ExecuteQueuedOperation jsstring jsstring "'p json" 'a
  | ExecuteQueuedDebouncedOperation jsstring jsstring "'p json" 'a
  | CollaborativeSetSubblockValue "subBlockConfig list" jsstring jsstring "'p json"
  | CollaborativeSetTagSelection jsstring jsstring "'p json"
  | CollaborativeAddBlock bool bool "'p json" "'p json" "'p json option"

fun runCollabCall :: "('a, 'p) collabState \<Rightarrow> ('a, 'p) collabCall \<Rightarrow> ('a, 'p) collabState" where
  "runCollabCall st (ExecuteQueuedOperation operation target payload localAction) =
     executeQueuedOperation operation target payload localAction st"
| "runCollabCall st (ExecuteQueuedDebouncedOperation operation target payload localAction) =
     executeQueuedDebouncedOperation operation target payload localAction st"
| "runCollabCall st (CollaborativeSetSubblockValue subBlocks blockId subblockId v) =
     collaborativeSetSubblockValue subBlocks blockId subblockId v st"
| "runCollabCall st (CollaborativeSetTagSelection blockId subblockId v) =
     collaborativeSetTagSelection blockId subblockId v st"
| "runCollabCall st (CollaborativeAddBlock hasBlockConfig isLoopOrParallel completeBlockData block edge) =
     collaborativeAddBlock hasBlockConfig isLoopOrParallel completeBlockData block edge st"

text \<open>
  A remote operation received by \<open>handleWorkflowOperation\<close>: the \<open>update-position\<close>
  and \<open>remove\<close> cases of target \<open>block\<close> touch \<open>lastPositionTimestamps\<close>; every
  other case only calls the stores. \<open>data.timestamp\<close> is a JSON number or missing.
\<close>

datatype ('a, 'p) remoteOperation =
    UpdatePosition jsstring "'p json" "int option"
  | RemoveBlockOperation jsstring
  | OtherOperation "('a, 'p) storeCall list"

text \<open>\<open>lastPositionTimestamps.current.get(blockId) || 0\<close>.\<close>

definition lastTimestamp :: "('a, 'p) collabState \<Rightarrow> jsstring \<Rightarrow> int" where
  "lastTimestamp st blockId = (case lastPositionTimestamps st blockId of None \<Rightarrow> 0 | Some l \<Rightarrow> l)"

text \<open>
  The case \<open>update-position\<close>: \<open>!data.timestamp\<close> holds for a missing timestamp and
  for 0.
\<close>

definition applyPositionUpdate ::
  "jsstring \<Rightarrow> 'p json \<Rightarrow> int option \<Rightarrow> ('a, 'p) collabState \<Rightarrow> ('a, 'p) collabState" where
  "applyPositionUpdate blockId position timestamp st =
     (case timestamp of
        None \<Rightarrow> applyLocally (UpdateBlockPosition blockId position) st
      | Some updateTimestamp \<Rightarrow>
          if updateTimestamp = 0 then applyLocally (UpdateBlockPosition blockId position) st
          else if updateTimestamp \<ge> lastTimestamp st blockId
          then (applyLocally (UpdateBlockPosition blockId position) st)
                 \<lparr>lastPositionTimestamps :=
                    (lastPositionTimestamps st)(blockId \<mapsto> updateTimestamp)\<rparr>
          else st)"

fun applyRemoteOperation ::
  "('a, 'p) remoteOperation \<Rightarrow> ('a, 'p) collabState \<Rightarrow> ('a, 'p) collabState" where
  "applyRemoteOperation (UpdatePosition blockId position timestamp) st =
     applyPositionUpdate blockId position timestamp st"
| "applyRemoteOperation (RemoveBlockOperation blockId) st =
     (applyLocally (RemoveBlock blockId) st)
       \<lparr>lastPositionTimestamps := (lastPositionTimestamps st)(blockId := None)\<rparr>"
| "applyRemoteOperation (OtherOperation calls) st = foldl (\<lambda>st c. applyLocally c st) st calls"

text \<open>
  The three handlers return at once when the flag is set; otherwise they set it, apply
  the change, and clear it in \<open>finally\<close>. \<open>reactions\<close> are the collaborative calls made
  by subscribers of the stores while the change is being applied.
\<close>

definition handleWorkflowOperation ::
  "('a, 'p) collabCall list \<Rightarrow> ('a, 'p) remoteOperation \<Rightarrow>
   ('a, 'p) collabState \<Rightarrow> ('a, 'p) collabState" where
  "handleWorkflowOperation reactions data st =
     (if isApplyingRemoteChange st then st
      else
        let st = st\<lparr>isApplyingRemoteChange := True\<rparr>;
            st = applyRemoteOperation data st;
            st = foldl runCollabCall st reactions
        in st\<lparr>isApplyingRemoteChange := False\<rparr>)"

definition handleSubblockUpdate ::
  "('a, 'p) collabCall list \<Rightarrow> jsstring \<Rightarrow> jsstring \<Rightarrow> 'p json \<Rightarrow>
   ('a, 'p) collabState \<Rightarrow> ('a, 'p) collabState" where
  "handleSubblockUpdate reactions blockId subblockId v st =
     (if isApplyingRemoteChange st then st
      else
        let st = st\<lparr>isApplyingRemoteChange := True\<rparr>;
            st = applyLocally (SetValue blockId subblockId v) st;
            st = foldl runCollabCall st reactions
        in st\<lparr>isApplyingRemoteChange := False\<rparr>)"

definition handleVariableUpdate ::
  "('a, 'p) collabCall list \<Rightarrow> jsstring \<Rightarrow> jsstring \<Rightarrow> 'p json \<Rightarrow>
   ('a, 'p) collabState \<Rightarrow> ('a, 'p) collabState" where
  "handleVariableUpdate reactions variableId field v st =
     (if isApplyingRemoteChange st then st
      else
        let st = st\<lparr>isApplyingRemoteChange := True\<rparr>;
            st = (if field = lit ''name'' \<or> field = lit ''value'' \<or> field = lit ''type''
                  then applyLocally (UpdateVariable variableId field v) st else st);
            st = foldl runCollabCall st reactions
        in st\<lparr>isApplyingRemoteChange := False\<rparr>)"


text \<open>States for the examples: in the active room, then applying a remote change, then showing a diff.\<close>

definition exampleState :: "(unit, unit) collabState" where
  "exampleState =
     \<lparr>isApplyingRemoteChange = False, isShowingDiff = False,
      currentWorkflowId = Some (lit ''wf1''), activeWorkflowId = Some (lit ''wf1''),
      sessionUserId = Some (lit ''u1''), queue = [], emitted = [], localCalls = [],
      lastPositionTimestamps = Map.empty, uuidSupply = 0\<rparr>"

definition applyingState :: "(unit, unit) collabState" where
  "applyingState = exampleState\<lparr>isApplyingRemoteChange := True\<rparr>"





section \<open>Function execution: mapping a stack trace back to the user's code\<close>




































section \<open>Properties of the webhook signature validators\<close>

subsection \<open>The comparison decides equality\<close>

lemma ucast_jschar_eq_iff: "(ucast (a::jschar) :: 32 word) = ucast b \<longleftrightarrow> a = b"
proof
  assume h: "(ucast a :: 32 word) = ucast b"
  have up: "is_up (ucast :: jschar \<Rightarrow> 32 word)"
    by (simp add: is_up)
  have "uint (ucast a :: 32 word) = uint a" and "uint (ucast b :: 32 word) = uint b"
    using up by (rule uint_up_ucast)+
  with h have "uint a = uint b"
    by simp
  then show "a = b"
    by (simp add: word_uint_eq_iff)
qed simp

lemma xor_int32_eq_0_iff: "(a XOR b = (0::32 word)) \<longleftrightarrow> a = b"
  by (metis bit.xor_left_self xor.right_neutral)

lemma compareLoop_eq_0_iff:
  "length computed = length provided \<Longrightarrow> i \<le> length computed \<Longrightarrow>
   compareLoop computed provided i result = 0 \<longleftrightarrow>
     result = 0 \<and> drop i computed = drop i provided"
proof (induction computed provided i result rule: compareLoop.induct)
  case (1 computed provided i result)
  show ?case
  proof (cases "i < length computed")
    case True
    with "1.prems" have lt: "i < length provided"
      by simp
    have step: "compareLoop computed provided i result =
        compareLoop computed provided (i + 1)
          (result OR (ucast (computed ! i) XOR ucast (provided ! i)))"
      using True lt by (subst compareLoop.simps) (simp add: charCodeAt_def toInt32_def)
    have ih: "compareLoop computed provided (i + 1)
          (result OR (ucast (computed ! i) XOR ucast (provided ! i))) = 0 \<longleftrightarrow>
        (result OR (ucast (computed ! i) XOR ucast (provided ! i))) = (0::32 word) \<and>
        drop (i + 1) computed = drop (i + 1) provided"
      using "1.IH" [OF True] "1.prems" True
      by (simp add: charCodeAt_def toInt32_def)
    have dc: "drop i computed = computed ! i # drop (i + 1) computed"
      using True by (simp add: Cons_nth_drop_Suc)
    have dp: "drop i provided = provided ! i # drop (i + 1) provided"
      using lt by (simp add: Cons_nth_drop_Suc)
    show ?thesis
      unfolding step ih dc dp
      by (auto simp: or_eq_0_iff xor_int32_eq_0_iff ucast_jschar_eq_iff)
  next
    case False
    with "1.prems" have "i = length computed" "i = length provided"
      by simp_all
    then show ?thesis
      by (subst compareLoop.simps) simp
  qed
qed

lemma constantTimeEqual_iff_eq: "constantTimeEqual computed provided \<longleftrightarrow> computed = provided"
  by (auto simp: constantTimeEqual_def compareLoop_eq_0_iff)

text \<open>
  Claim C5. The constant-time comparison of both validators (reject when the lengths
  differ, otherwise OR together the XOR of each pair of code units and accept when the
  accumulator is zero) is plain string equality: for every pair of strings it returns
  true exactly when the computed signature equals the provided one.
\<close>

theorem constant_time_comparison_is_equality:
  "constantTimeEqual computed provided = (computed = provided)"
  by (rule constantTimeEqual_iff_eq)

subsection \<open>What the two validators accept\<close>

lemma validateSlackSignature_iff:
  "validateSlackSignature P currentTime signingSecret signature timestamp body \<longleftrightarrow>
     signingSecret \<noteq> [] \<and> signature \<noteq> [] \<and> timestamp \<noteq> [] \<and> body \<noteq> [] \<and>
     \<not> timestampTooOld currentTime (parseInt timestamp) \<and>
     (case hmacSha256 P (utf8Encode P signingSecret)
              (utf8Encode P (lit ''v0:'' @ timestamp @ lit '':'' @ body)) of
         None \<Rightarrow> False
       | Some signatureBytes \<Rightarrow> signature = lit ''v0='' @ signatureHex signatureBytes)"
  by (auto simp: validateSlackSignature_def constantTimeEqual_iff_eq Let_def
           split: option.splits)

lemma validateSlackSignature_numeric_timestamp:
  "parseInt timestamp = Some t \<Longrightarrow>
   validateSlackSignature P currentTime signingSecret signature timestamp body =
   validateSlackSignature_spec P currentTime signingSecret signature timestamp body"
  by (auto simp: validateSlackSignature_iff validateSlackSignature_spec_def timestampTooOld_def
        withinReplayWindow_def split: option.splits)

lemma parseInt_abc: "parseInt (lit ''abc'') = None"
  by (simp add: parseInt_def lit_def isStrWhiteSpaceChar_def isRadixDigit_def digitValue_def)

text \<open>
  Claim C1 says that \<open>validateSlackSignature\<close> returns true only for a timestamp within
  the five-minute window. The code's check is \<open>Math.abs(...) > 300\<close>, which is false
  when \<open>parseInt\<close> yields \<open>NaN\<close>: for the timestamp \<open>abc\<close> the window is not checked
  at all, whatever the clock reads, and a signature that matches the digest of
  \<open>v0:abc:{body}\<close> is accepted, where the contract of the specification rejects it.
\<close>

theorem validateSlackSignature_non_numeric_timestamp:
  "validateSlackSignature P currentTime (lit ''s3cr3t'') signature (lit ''abc'') (lit ''{}'') =
     (case hmacSha256 P (utf8Encode P (lit ''s3cr3t'')) (utf8Encode P (lit ''v0:abc:{}'')) of
        None \<Rightarrow> False
      | Some signatureBytes \<Rightarrow> signature = lit ''v0='' @ signatureHex signatureBytes)
   \<and> \<not> validateSlackSignature_spec P currentTime (lit ''s3cr3t'') signature (lit ''abc'') (lit ''{}'')"
proof -
  have nonempty: "lit ''s3cr3t'' \<noteq> []" "lit ''abc'' \<noteq> []" "lit ''{}'' \<noteq> []"
    by (simp_all add: lit_def)
  have base: "lit ''v0:'' @ lit ''abc'' @ lit '':'' @ lit ''{}'' = lit ''v0:abc:{}''"
    by (simp add: lit_def)
  have sig: "signature = [] \<Longrightarrow> signature \<noteq> lit ''v0='' @ rest" for rest
    by (simp add: lit_def)
  have code: "validateSlackSignature P currentTime (lit ''s3cr3t'') signature (lit ''abc'') (lit ''{}'') =
     (case hmacSha256 P (utf8Encode P (lit ''s3cr3t'')) (utf8Encode P (lit ''v0:abc:{}'')) of
        None \<Rightarrow> False
      | Some signatureBytes \<Rightarrow> signature = lit ''v0='' @ signatureHex signatureBytes)"
    unfolding validateSlackSignature_iff base
    using nonempty sig
    by (auto simp: parseInt_abc timestampTooOld_def split: option.splits)
  have spec: "\<not> validateSlackSignature_spec P currentTime (lit ''s3cr3t'') signature (lit ''abc'') (lit ''{}'')"
    by (simp add: validateSlackSignature_spec_def parseInt_abc withinReplayWindow_def)
  from code spec show ?thesis
    by simp
qed

text \<open>
  Claim C4. \<open>validateMicrosoftTeamsSignature\<close> returns true exactly when its three
  arguments are non-empty, the signature starts with \<open>HMAC \<close> and its remainder is the
  base64 encoding of the HMAC-SHA256 of the UTF-8 body under the base64-decoded secret;
  in every other case, a thrown error included, it returns false.
\<close>

theorem validateMicrosoftTeamsSignature_iff:
  "validateMicrosoftTeamsSignature P hmacSecret signature body =
     (hmacSecret \<noteq> [] \<and> signature \<noteq> [] \<and> body \<noteq> [] \<and>
      startsWith signature (lit ''HMAC '') \<and>
      (case hmacSha256 P (base64Decode P hmacSecret) (utf8Encode P body) of
         None \<Rightarrow> False
       | Some digest \<Rightarrow> substring signature 5 = base64Encode P digest))"
  by (auto simp: validateMicrosoftTeamsSignature_def constantTimeEqual_iff_eq Let_def
           split: option.splits)

section \<open>Properties of the Airtable consolidation\<close>


lemma mapGet_None_iff: "mapGet m k = None \<longleftrightarrow> k \<notin> set (map fst m)"
  by (induction m) (auto split: if_splits)























section \<open>Properties of the Airtable polling loop\<close>

lemma pollIteration_Continue:
  "snd (pollIteration env st) = Continue \<Longrightarrow>
   apiCallCount st < 10 \<and> apiCallCount (fst (pollIteration env st)) = apiCallCount st + 1"
  by (auto simp: pollIteration_def updateCursor_def Let_def
           simp: receivePayloads_def split: if_splits fetchResult.splits cursorValue.splits)

lemma pollIteration_fetchCount:
  "fetchCount (fst (pollIteration env st)) =
     (if apiCallCount st < 10 then fetchCount st + 1 else fetchCount st)"
  by (auto simp: pollIteration_def updateCursor_def Let_def fetchCount_def
           simp: receivePayloads_def split: if_splits fetchResult.splits cursorValue.splits)

lemma pollIteration_apiCallCount:
  "apiCallCount (fst (pollIteration env st)) = apiCallCount st + 1"
  by (auto simp: pollIteration_def updateCursor_def Let_def
           simp: receivePayloads_def split: if_splits fetchResult.splits cursorValue.splits)

lemma pollIteration_Break:
  "snd (pollIteration env st) = Break \<Longrightarrow> \<not> mightHaveMore (fst (pollIteration env st))"
  by (auto simp: pollIteration_def updateCursor_def Let_def
           simp: receivePayloads_def split: if_splits fetchResult.splits cursorValue.splits)

lemma pollLoop_bounds:
  "apiCallCount st \<le> 10 \<Longrightarrow> fetchCount st = apiCallCount st \<Longrightarrow>
   fetchCount (pollLoop env st) \<le> 10 \<and>
   apiCallCount (pollLoop env st) \<le> 11 \<and>
   fetchCount (pollLoop env st) = min (apiCallCount (pollLoop env st)) 10 \<and>
   \<not> mightHaveMore (pollLoop env st)"
proof (induction env st rule: pollLoop.induct)
  case (1 env st)
  show ?case
  proof (cases "mightHaveMore st")
    case False
    then have "pollLoop env st = st"
      by (subst pollLoop.simps) simp
    then show ?thesis
      using False "1.prems" by simp
  next
    case True
    note more = this
    show ?thesis
    proof (cases "snd (pollIteration env st) = Break")
      case True
      then have "pollLoop env st = fst (pollIteration env st)"
        using more by (subst pollLoop.simps) simp
      then show ?thesis
        using "1.prems" pollIteration_Break [OF True]
        by (auto simp: pollIteration_fetchCount pollIteration_apiCallCount)
    next
      case False
      then have c: "snd (pollIteration env st) = Continue"
        by (cases "snd (pollIteration env st)") simp_all
      from pollIteration_Continue [OF c] have lt: "apiCallCount st < 10"
        by simp
      have "fetchCount (pollLoop env (fst (pollIteration env st))) \<le> 10 \<and>
            apiCallCount (pollLoop env (fst (pollIteration env st))) \<le> 11 \<and>
            fetchCount (pollLoop env (fst (pollIteration env st))) =
              min (apiCallCount (pollLoop env (fst (pollIteration env st)))) 10 \<and>
            \<not> mightHaveMore (pollLoop env (fst (pollIteration env st)))"
        using "1.IH" [OF more False] lt "1.prems"
        by (simp add: pollIteration_fetchCount pollIteration_apiCallCount)
      moreover have "pollLoop env st = pollLoop env (fst (pollIteration env st))"
        using more False by (subst pollLoop.simps) simp
      ultimately show ?thesis
        by simp
    qed
  qed
qed

lemma pollLoop_stopped: "\<not> mightHaveMore st \<Longrightarrow> pollLoop env st = st"
  by (subst pollLoop.simps) simp

lemma pollLoop_step:
  fixes st :: "'v pollState"
  assumes "mightHaveMore st" and "apiCallCount st < 10"
    and "fetchPayloads env (apiCallCount st + 1) (currentCursor st) = ApiOk r"
  shows "pollLoop env st =
     (let st1 = receivePayloads (issueFetch st) r
      in case cursor r of
           CursorNumber c \<Rightarrow>
             if c \<noteq> 0 \<and> Some c \<noteq> currentCursor st then
               if dbUpdateSucceeds env (apiCallCount st + 1) c
               then pollLoop env (st1\<lparr>currentCursor := Some c, dbCursor := CursorNumber c,
                      localCursor := CursorNumber c, ioLog := ioLog st1 @ [CursorSaved c]\<rparr>)
               else st1\<lparr>currentCursor := Some c, mightHaveMore := False,
                      ioLog := ioLog st1 @ [CursorSaveFailed c]\<rparr>
             else st1\<lparr>mightHaveMore := False\<rparr>
         | CursorMissing \<Rightarrow> st1\<lparr>mightHaveMore := False\<rparr>
         | CursorNonNumeric \<Rightarrow> st1\<lparr>mightHaveMore := False\<rparr>)"
proof -
  have nm: "pollLoop env (s\<lparr>mightHaveMore := False\<rparr>) = s\<lparr>mightHaveMore := False\<rparr>" for s :: "'v pollState"
    by (subst pollLoop.simps) simp
  show ?thesis
    using assms
    by (subst pollLoop.simps)
       (auto simp: pollIteration_def updateCursor_def Let_def issueFetch_def receivePayloads_def nm
             split: cursorValue.splits)
qed



lemma polling_bound_is_reached:
  "apiCallCount (pollLoop endlessEnv (initialPollState CursorMissing)) = 11 \<and>
   fetchCount (pollLoop endlessEnv (initialPollState CursorMissing)) = 10 \<and>
   dbCursor (pollLoop endlessEnv (initialPollState CursorMissing)) = CursorNumber 110"
  by code_simp

text \<open>
  Claim C2. The polling loop makes at most 10 fetch calls: it counts a call before
  fetching and breaks without fetching once the count exceeds 10, so it ends whatever
  \<open>mightHaveMore\<close> the API keeps returning. (\<open>pollLoop\<close> is a total function: its
  termination is proved on the call count.)
\<close>

theorem polling_at_most_ten_fetches:
  "fetchCount (pollLoop env (initialPollState storedCursor)) \<le> 10 \<and>
   apiCallCount (pollLoop env (initialPollState storedCursor)) \<le> 11 \<and>
   fetchCount (pollLoop env (initialPollState storedCursor)) =
     min (apiCallCount (pollLoop env (initialPollState storedCursor))) 10 \<and>
   \<not> mightHaveMore (pollLoop env (initialPollState storedCursor))"
  by (rule pollLoop_bounds) (simp_all add: initialPollState_def fetchCount_def)

text \<open>
  Claim C3, amended. When a successful response carries a non-zero numeric cursor that
  differs from the current one, the update of the webhook row is attempted at once: if it
  succeeds, the row and the local configuration hold the new cursor before the loop goes
  on (so before any next fetch); if it fails, polling stops. Polling also stops when the
  cursor is missing, not a number, zero, or equal to the current cursor.
\<close>

theorem cursor_saved_before_next_fetch:
  fixes st :: "'v pollState"
  assumes "mightHaveMore st" and "apiCallCount st < 10"
    and "fetchPayloads env (apiCallCount st + 1) (currentCursor st) = ApiOk r"
  shows "pollLoop env st =
     (let st1 = receivePayloads (issueFetch st) r
      in case cursor r of
           CursorNumber c \<Rightarrow>
             if c \<noteq> 0 \<and> Some c \<noteq> currentCursor st then
               if dbUpdateSucceeds env (apiCallCount st + 1) c
               then pollLoop env (st1\<lparr>currentCursor := Some c, dbCursor := CursorNumber c,
                      localCursor := CursorNumber c, ioLog := ioLog st1 @ [CursorSaved c]\<rparr>)
               else st1\<lparr>currentCursor := Some c, mightHaveMore := False,
                      ioLog := ioLog st1 @ [CursorSaveFailed c]\<rparr>
             else st1\<lparr>mightHaveMore := False\<rparr>
         | CursorMissing \<Rightarrow> st1\<lparr>mightHaveMore := False\<rparr>
         | CursorNonNumeric \<Rightarrow> st1\<lparr>mightHaveMore := False\<rparr>)"
  using assms by (rule pollLoop_step)

theorem cursor_saved_before_next_fetch_witness:
  "pollLoop newCursorEnv (initialPollState CursorMissing) =
     \<lparr>currentCursor = Some 7, mightHaveMore = False, apiCallCount = 1,
      consolidatedChangesMap = [], allPayloads = [],
      localCursor = CursorNumber 7, dbCursor = CursorNumber 7,
      ioLog = [FetchCall 1 None, CursorSaved 7]\<rparr>"
proof -
  have m: "mightHaveMore (initialPollState CursorMissing :: unit pollState)"
    by (simp add: initialPollState_def)
  have n: "apiCallCount (initialPollState CursorMissing :: unit pollState) < 10"
    by (simp add: initialPollState_def)
  have f: "fetchPayloads newCursorEnv
      (apiCallCount (initialPollState CursorMissing :: unit pollState) + 1)
      (currentCursor (initialPollState CursorMissing :: unit pollState)) = ApiOk newCursorResponse"
    by (simp add: newCursorEnv_def)
  show ?thesis
    using cursor_saved_before_next_fetch [OF m n f]
    by (simp add: newCursorResponse_def newCursorEnv_def initialPollState_def issueFetch_def
          receivePayloads_def consolidatePayloads_def pollLoop_stopped)
qed

text \<open>
  Claim C3 as stated fails for the numeric cursor 0: it differs from the current cursor
  5, the update would succeed, and yet nothing is saved and polling stops.
\<close>

theorem zero_cursor_not_saved:
  "cursor zeroCursorResponse = CursorNumber 0 \<and>
   currentCursor (initialPollState (CursorNumber 5) :: unit pollState) = Some 5 \<and>
   dbUpdateSucceeds zeroCursorEnv 1 0 \<and>
   pollLoop zeroCursorEnv (initialPollState (CursorNumber 5)) =
     \<lparr>currentCursor = Some 5, mightHaveMore = False, apiCallCount = 1,
      consolidatedChangesMap = [], allPayloads = [],
      localCursor = CursorNumber 5, dbCursor = CursorNumber 5,
      ioLog = [FetchCall 1 (Some 5)]\<rparr>"
proof -
  have m: "mightHaveMore (initialPollState (CursorNumber 5) :: unit pollState)"
    by (simp add: initialPollState_def)
  have n: "apiCallCount (initialPollState (CursorNumber 5) :: unit pollState) < 10"
    by (simp add: initialPollState_def)
  have f: "fetchPayloads zeroCursorEnv
      (apiCallCount (initialPollState (CursorNumber 5) :: unit pollState) + 1)
      (currentCursor (initialPollState (CursorNumber 5) :: unit pollState)) = ApiOk zeroCursorResponse"
    by (simp add: zeroCursorEnv_def)
  show ?thesis
    using pollLoop_step [OF m n f]
    by (simp add: zeroCursorResponse_def zeroCursorEnv_def initialPollState_def issueFetch_def
          receivePayloads_def consolidatePayloads_def)
qed


lemma consolidation_example:
  "map (\<lambda>c. (recordId c, changeType c, changedFields c (lit ''fld1''), previousFields c = None))
     (mapValues (consolidatePayloads [] [createdPayload, changedPayload])) =
   [(lit ''rec1'', Updated, Some 2, True)]"
  by (simp add: consolidatePayloads_def handlePayload_def handleTableChanges_def
        handleCreatedRecord_def handleChangedRecord_def createdPayload_def changedPayload_def
        orEmpty_def mapValues_def Let_def)


section \<open>Properties of the collaboration layer\<close>

lemma setSubblockValues_suppressed:
  "isApplyingRemoteChange st \<or> isShowingDiff st \<or> \<not> isInActiveRoom st \<Longrightarrow>
   setSubblockValues subBlocks blockId calls visited st = st"
proof (induction calls)
  case Nil
  show ?case by (simp add: setSubblockValues.simps)
next
  case (Cons c calls)
  then show ?case by (cases c) (simp add: setSubblockValues.simps)
qed

lemma runCollabCall_flag:
  "isApplyingRemoteChange st \<Longrightarrow>
   isApplyingRemoteChange (runCollabCall st c) \<and>
   queue (runCollabCall st c) = queue st \<and> emitted (runCollabCall st c) = emitted st"
  by (cases c)
     (auto simp: executeQueuedOperation_def executeQueuedDebouncedOperation_def
        collaborativeSetSubblockValue_def setSubblockValues_suppressed
        collaborativeSetTagSelection_def collaborativeAddBlock_def addBlockLocally_def
        applyLocally_def Let_def split: option.splits)

lemma reactions_flag:
  "isApplyingRemoteChange st \<Longrightarrow>
   isApplyingRemoteChange (foldl runCollabCall st cs) \<and>
   queue (foldl runCollabCall st cs) = queue st \<and> emitted (foldl runCollabCall st cs) = emitted st"
  by (induction cs arbitrary: st) (simp_all add: runCollabCall_flag)

lemma applyPositionUpdate_outgoing:
  "queue (applyPositionUpdate b p t st) = queue st \<and>
   emitted (applyPositionUpdate b p t st) = emitted st \<and>
   isApplyingRemoteChange (applyPositionUpdate b p t st) = isApplyingRemoteChange st"
  by (simp add: applyPositionUpdate_def applyLocally_def split: option.splits)

lemma foldl_applyLocally_outgoing:
  "queue (foldl (\<lambda>st c. applyLocally c st) st cs) = queue st \<and>
   emitted (foldl (\<lambda>st c. applyLocally c st) st cs) = emitted st \<and>
   isApplyingRemoteChange (foldl (\<lambda>st c. applyLocally c st) st cs) = isApplyingRemoteChange st"
  by (induction cs arbitrary: st) (simp_all add: applyLocally_def)

lemma applyRemoteOperation_outgoing:
  "queue (applyRemoteOperation data st) = queue st \<and>
   emitted (applyRemoteOperation data st) = emitted st \<and>
   isApplyingRemoteChange (applyRemoteOperation data st) = isApplyingRemoteChange st"
proof (cases data)
  case (UpdatePosition b p t)
  then show ?thesis by (simp add: applyPositionUpdate_outgoing)
next
  case (RemoveBlockOperation b)
  then show ?thesis by (simp add: applyLocally_def)
next
  case (OtherOperation calls)
  then show ?thesis by (simp add: foldl_applyLocally_outgoing)
qed

lemma handleWorkflowOperation_outgoing:
  "queue (handleWorkflowOperation reactions data st) = queue st \<and>
   emitted (handleWorkflowOperation reactions data st) = emitted st"
proof (cases "isApplyingRemoteChange st")
  case True
  then show ?thesis by (simp add: handleWorkflowOperation_def)
next
  case False
  have "isApplyingRemoteChange (applyRemoteOperation data (st\<lparr>isApplyingRemoteChange := True\<rparr>))"
    by (simp add: applyRemoteOperation_outgoing)
  from reactions_flag [OF this, of reactions] show ?thesis
    using False by (simp add: handleWorkflowOperation_def Let_def applyRemoteOperation_outgoing)
qed

lemma handleSubblockUpdate_outgoing:
  "queue (handleSubblockUpdate reactions b s v st) = queue st \<and>
   emitted (handleSubblockUpdate reactions b s v st) = emitted st"
proof (cases "isApplyingRemoteChange st")
  case True
  then show ?thesis by (simp add: handleSubblockUpdate_def)
next
  case False
  have "isApplyingRemoteChange (applyLocally (SetValue b s v) (st\<lparr>isApplyingRemoteChange := True\<rparr>))"
    by (simp add: applyLocally_def)
  from reactions_flag [OF this, of reactions] show ?thesis
    using False by (simp add: handleSubblockUpdate_def Let_def applyLocally_def)
qed

lemma handleVariableUpdate_outgoing:
  "queue (handleVariableUpdate reactions x f v st) = queue st \<and>
   emitted (handleVariableUpdate reactions x f v st) = emitted st"
proof (cases "isApplyingRemoteChange st")
  case True
  then show ?thesis by (simp add: handleVariableUpdate_def)
next
  case False
  define st1 where "st1 = (if f = lit ''name'' \<or> f = lit ''value'' \<or> f = lit ''type''
      then applyLocally (UpdateVariable x f v) (st\<lparr>isApplyingRemoteChange := True\<rparr>)
      else st\<lparr>isApplyingRemoteChange := True\<rparr>)"
  have "isApplyingRemoteChange st1" "queue st1 = queue st" "emitted st1 = emitted st"
    by (simp_all add: st1_def applyLocally_def)
  with reactions_flag [of st1 reactions] show ?thesis
    using False unfolding handleVariableUpdate_def Let_def st1_def [symmetric] by simp
qed







lemma remove_forgets_timestamp:
  "lastTimestamp (applyRemoteOperation (RemoveBlockOperation b) st) b = 0"
  by (simp add: lastTimestamp_def applyLocally_def)




text \<open>
  Claim C7. While \<open>isApplyingRemoteChange\<close> is set, \<open>executeQueuedOperation\<close>,
  \<open>executeQueuedDebouncedOperation\<close>, \<open>collaborativeSetSubblockValue\<close> and
  \<open>collaborativeSetTagSelection\<close> return without any effect, no collaborative call adds
  to the queue or emits, and the three remote handlers return at once. So a remote
  handler leaves the queue and the emitted operations as they were, whatever collaborative
  calls are made while it applies the change.
\<close>

theorem remote_change_suppresses_outgoing:
  "(isApplyingRemoteChange st \<longrightarrow>
      executeQueuedOperation operation target payload localAction st = st \<and>
      executeQueuedDebouncedOperation operation target payload localAction st = st \<and>
      collaborativeSetSubblockValue subBlocks blockId subblockId v st = st \<and>
      collaborativeSetTagSelection blockId subblockId v st = st \<and>
      queue (runCollabCall st c) = queue st \<and> emitted (runCollabCall st c) = emitted st \<and>
      handleWorkflowOperation reactions data st = st \<and>
      handleSubblockUpdate reactions blockId subblockId v st = st \<and>
      handleVariableUpdate reactions variableId field v st = st) \<and>
   queue (handleWorkflowOperation reactions data st) = queue st \<and>
   emitted (handleWorkflowOperation reactions data st) = emitted st \<and>
   queue (handleSubblockUpdate reactions blockId subblockId v st) = queue st \<and>
   emitted (handleSubblockUpdate reactions blockId subblockId v st) = emitted st \<and>
   queue (handleVariableUpdate reactions variableId field v st) = queue st \<and>
   emitted (handleVariableUpdate reactions variableId field v st) = emitted st"
  using runCollabCall_flag [of st c]
    handleWorkflowOperation_outgoing [of reactions data st]
    handleSubblockUpdate_outgoing [of reactions blockId subblockId v st]
    handleVariableUpdate_outgoing [of reactions variableId field v st]
  by (simp add: executeQueuedOperation_def executeQueuedDebouncedOperation_def
        collaborativeSetSubblockValue_def setSubblockValues_suppressed
        collaborativeSetTagSelection_def handleWorkflowOperation_def handleSubblockUpdate_def
        handleVariableUpdate_def)

theorem remote_change_suppresses_outgoing_witness:
  "isApplyingRemoteChange applyingState \<and>
   executeQueuedOperation (lit ''remove'') (lit ''block'') (JOther ()) () applyingState = applyingState \<and>
   collaborativeSetTagSelection (lit ''b1'') (lit ''s1'') (JString (lit ''x'')) applyingState = applyingState \<and>
   queue (handleWorkflowOperation
            [ExecuteQueuedOperation (lit ''update-name'') (lit ''block'') (JOther ()) ()]
            (UpdatePosition (lit ''b1'') (JOther ()) (Some 10)) exampleState) = [] \<and>
   emitted (handleWorkflowOperation
            [ExecuteQueuedOperation (lit ''update-name'') (lit ''block'') (JOther ()) ()]
            (UpdatePosition (lit ''b1'') (JOther ()) (Some 10)) exampleState) = []"
proof -
  have f: "isApplyingRemoteChange applyingState"
    by (simp add: applyingState_def)
  have q: "queue exampleState = []" "emitted exampleState = []"
    by (simp_all add: exampleState_def)
  show ?thesis
    using f q
      remote_change_suppresses_outgoing
        [of applyingState "lit ''remove''" "lit ''block''" "JOther ()" "()" "[]"
            "lit ''b1''" "lit ''s1''" "JString (lit ''x'')"
            "CollaborativeSetTagSelection (lit ''b1'') (lit ''s1'') (JString (lit ''x''))"
            "[]" "OtherOperation []" "lit ''v1''" "lit ''name''"]
      remote_change_suppresses_outgoing
        [of exampleState "lit ''remove''" "lit ''block''" "JOther ()" "()" "[]"
            "lit ''b1''" "lit ''s1''" "JString (lit ''x'')"
            "CollaborativeSetTagSelection (lit ''b1'') (lit ''s1'') (JString (lit ''x''))"
            "[ExecuteQueuedOperation (lit ''update-name'') (lit ''block'') (JOther ()) ()]"
            "UpdatePosition (lit ''b1'') (JOther ()) (Some 10)" "lit ''v1''" "lit ''name''"]
    by simp
qed












section \<open>Properties of the error enhancement\<close>











end
